theory Spec2Isabelle
  imports Complex_Main
begin

section \<open>Errors\<close>

text \<open>
  Every \<^verbatim>\<open>raise HTTPException(status_code=..., detail=...)\<close> of the routers is a value
  \<open>HTTPException code detail\<close>. The rejection of an order outside business hours carries
  a formatted date in its detail, so it is kept structured: \<open>BusinessClosed msg next\<close> is
  the HTTP 400 whose detail is \<open>msg\<close>, followed by
  \<^verbatim>\<open>" We will be open again at <next, %Y-%m-%d %H:%M>."\<close> when \<open>next\<close> is set.
  \<open>InvalidOperation\<close> is \<^verbatim>\<open>decimal.InvalidOperation\<close>, raised by
  \<^verbatim>\<open>Decimal(str(None))\<close>, and \<open>ValueError\<close> is Python's.
\<close>

type_synonym instant = int

record datetime =
  date_ordinal :: int
  time_of_day :: nat
  tzinfo :: "int option"

datatype error =
    HTTPException nat string
  | BusinessClosed string "datetime option"
  | InvalidOperation
  | ValueError string

section \<open>Order status\<close>

text \<open>
  \<^verbatim>\<open>models.User\<close> and \<^verbatim>\<open>models.Order\<close>, with the columns the status endpoints and
  order creation read or write. \<open>status\<close> is a \<^verbatim>\<open>String(16)\<close> column: any string can be
  stored in it. Naive UTC datetimes (\<^verbatim>\<open>datetime.utcnow()\<close>) are instants counted in
  microseconds.
\<close>

record user =
  uid :: int
  role :: string

record order =
  user_id :: "int option"
  status :: string
  subtotal :: rat
  order_discount :: rat
  total :: rat
  promocode_code :: "string option"
  updated_at :: instant

type_synonym order_table = "int \<rightharpoonup> order"

definition require_admin :: "user \<Rightarrow> error + user" where
  "require_admin u =
     (if role u \<noteq> ''admin'' then Inl (HTTPException 403 ''admin only'') else Inr u)"

definition require_courier :: "user \<Rightarrow> error + user" where
  "require_courier u =
     (if role u \<notin> set [''admin'', ''manager'', ''courier'']
      then Inl (HTTPException 403 ''Courier access required'') else Inr u)"

definition ALLOWED_STATUSES :: "string set" where
  "ALLOWED_STATUSES = {''NEW'', ''COOKING'', ''ON_WAY'', ''DELIVERED'', ''CANCELLED''}"

text \<open>
  \<^verbatim>\<open>PUT /admin/orders/{order_id}/status\<close>: the requested status is checked for membership
  in \<open>ALLOWED_STATUSES\<close> and then stored; the current status is read only for the
  notification that follows the commit (best effort, not modelled).
\<close>

definition admin_update_order_status ::
  "user \<Rightarrow> int \<Rightarrow> string \<Rightarrow> order_table \<Rightarrow> error + order_table" where
  "admin_update_order_status u order_id payload_status db =
     (case require_admin u of
        Inl e \<Rightarrow> Inl e
      | Inr _ \<Rightarrow>
          if payload_status \<notin> ALLOWED_STATUSES then Inl (HTTPException 400 ''Invalid status'')
          else (case db order_id of
                  None \<Rightarrow> Inl (HTTPException 404 ''Order not found'')
                | Some ord \<Rightarrow> Inr (db(order_id \<mapsto> ord\<lparr>status := payload_status\<rparr>))))"

text \<open>
  The validator of the schema \<^verbatim>\<open>OrderStatusUpdate\<close>; a \<^verbatim>\<open>ValueError\<close> raised in a
  pydantic validator reaches the client as HTTP 422.
\<close>

definition validate_status :: "string \<Rightarrow> error + string" where
  "validate_status v =
     (if v \<notin> set [''NEW'', ''COOKING'', ''ON_WAY'', ''DELIVERED'', ''CANCELLED'']
      then Inl (HTTPException 422
                  ''Status must be one of: NEW, COOKING, ON_WAY, DELIVERED, CANCELLED'')
      else Inr v)"

definition valid_courier_statuses :: "string list" where
  "valid_courier_statuses = [''COOKING'', ''ON_WAY'', ''DELIVERED'', ''CANCELLED'']"

definition valid_transitions :: "string \<rightharpoonup> string list" where
  "valid_transitions = map_of
     [(''NEW'', [''COOKING'', ''CANCELLED'']),
      (''COOKING'', [''ON_WAY'', ''CANCELLED'']),
      (''ON_WAY'', [''DELIVERED'', ''CANCELLED'']),
      (''DELIVERED'', []),
      (''CANCELLED'', [])]"

text \<open>
  The two checks of the courier endpoint between reading the request and writing the
  order (\<^verbatim>\<open>courier.py\<close>, "Validate status transitions for couriers" and "Business logic
  for status transitions"): the guard returns the status to store, or the HTTP 400 raised.
\<close>

definition transition :: "string \<Rightarrow> string \<Rightarrow> error + string" where
  "transition current_status new_status =
     (if new_status \<notin> set valid_courier_statuses
      then Inl (HTTPException 400
             ''Invalid status. Couriers can only set: COOKING, ON_WAY, DELIVERED, CANCELLED'')
      else if new_status \<notin> set (case valid_transitions current_status of
                                    None \<Rightarrow> [] | Some ts \<Rightarrow> ts)
      then Inl (HTTPException 400
             (''Invalid status transition from '' @ current_status @ '' to '' @ new_status))
      else Inr new_status)"

text \<open>\<^verbatim>\<open>PATCH /courier/orders/{order_id}/status\<close>.\<close>

definition courier_update_order_status ::
  "user \<Rightarrow> int \<Rightarrow> string \<Rightarrow> instant \<Rightarrow> order_table \<Rightarrow> error + order_table" where
  "courier_update_order_status u order_id requested utcnow db =
     (case require_courier u of
        Inl e \<Rightarrow> Inl e
      | Inr _ \<Rightarrow>
     (case validate_status requested of
        Inl e \<Rightarrow> Inl e
      | Inr new_status \<Rightarrow>
     (case db order_id of
        None \<Rightarrow> Inl (HTTPException 404 ''Order not found'')
      | Some ord \<Rightarrow>
     (case transition (status ord) new_status of
        Inl e \<Rightarrow> Inl e
      | Inr s \<Rightarrow> Inr (db(order_id \<mapsto> ord\<lparr>status := s, updated_at := utcnow\<rparr>))))))"

text \<open>\<^verbatim>\<open>PATCH /orders/{order_id}/cancel\<close>.\<close>

definition cancellable_statuses :: "string list" where
  "cancellable_statuses = [''NEW'', ''PENDING'', ''CONFIRMED'']"

definition cancel_order :: "user \<Rightarrow> int \<Rightarrow> instant \<Rightarrow> order_table \<Rightarrow> error + order_table" where
  "cancel_order u order_id utcnow db =
     (case db order_id of
        None \<Rightarrow> Inl (HTTPException 404 ''Order not found'')
      | Some ord \<Rightarrow>
          if user_id ord \<noteq> Some (uid u) \<and> role u \<noteq> ''admin''
          then Inl (HTTPException 403 ''Access denied'')
          else if status ord \<notin> set cancellable_statuses
          then Inl (HTTPException 400 (''Cannot cancel order with status: '' @ status ord))
          else Inr (db(order_id \<mapsto> ord\<lparr>status := ''CANCELLED'', updated_at := utcnow\<rparr>)))"

text \<open>The five states and the edge set, as the specification lists them.\<close>

definition states :: "string list" where
  "states = [''NEW'', ''COOKING'', ''ON_WAY'', ''DELIVERED'', ''CANCELLED'']"

definition spec_edges :: "(string \<times> string) set" where
  "spec_edges =
     {(''NEW'', ''COOKING''), (''NEW'', ''CANCELLED''),
      (''COOKING'', ''ON_WAY''), (''COOKING'', ''CANCELLED''),
      (''ON_WAY'', ''DELIVERED''), (''ON_WAY'', ''CANCELLED'')}"

section \<open>Business hours\<close>

text \<open>
  \<^verbatim>\<open>services/business/hours.py\<close>. A \<^verbatim>\<open>datetime.time\<close> is the number of microseconds since
  midnight (naive times compare by hour, minute, second and microsecond, that is, by this
  number). A \<^verbatim>\<open>datetime\<close> is its date as the proleptic Gregorian ordinal
  (\<^verbatim>\<open>date.toordinal()\<close>), its time of day, and its UTC offset in microseconds when it is
  aware. Ordinals are integers: the end of Python's calendar (year 9999), where adding
  days raises \<^verbatim>\<open>OverflowError\<close>, is outside this model.
\<close>

definition time :: "nat \<Rightarrow> nat \<Rightarrow> nat" where
  "time hour minute = (hour * 60 + minute) * 60 * 1000000"

record business_hours =
  day :: nat
  open_time :: "nat option"
  close_time :: "nat option"
  is_closed :: bool

record business_hours_validation_result =
  is_open :: bool
  hours_reason :: "string option"
  next_open_time :: "datetime option"

type_synonym schedule = "nat \<rightharpoonup> business_hours"

definition default_hours :: schedule where
  "default_hours = map_of
     [(0, \<lparr>day = 0, open_time = Some (time 9 0), close_time = Some (time 22 0), is_closed = False\<rparr>),
      (1, \<lparr>day = 1, open_time = Some (time 9 0), close_time = Some (time 22 0), is_closed = False\<rparr>),
      (2, \<lparr>day = 2, open_time = Some (time 9 0), close_time = Some (time 22 0), is_closed = False\<rparr>),
      (3, \<lparr>day = 3, open_time = Some (time 9 0), close_time = Some (time 22 0), is_closed = False\<rparr>),
      (4, \<lparr>day = 4, open_time = Some (time 9 0), close_time = Some (time 22 0), is_closed = False\<rparr>),
      (5, \<lparr>day = 5, open_time = Some (time 10 0), close_time = Some (time 23 0), is_closed = False\<rparr>),
      (6, \<lparr>day = 6, open_time = Some (time 10 0), close_time = Some (time 21 0), is_closed = False\<rparr>)]"

text \<open>The business timezone, \<^verbatim>\<open>timezone(timedelta(hours=5))\<close>.\<close>

definition business_timezone :: int where
  "business_timezone = 5 * 3600 * 1000000"

definition microseconds_per_day :: int where
  "microseconds_per_day = 24 * 3600 * 1000000"

text \<open>\<^verbatim>\<open>date.weekday()\<close>: Monday is 0, and ordinal 1 (0001-01-01) is a Monday.\<close>

definition weekday_of :: "int \<Rightarrow> nat" where
  "weekday_of ordinal = nat ((ordinal + 6) mod 7)"

definition weekday :: "datetime \<Rightarrow> nat" where
  "weekday dt = weekday_of (date_ordinal dt)"

text \<open>\<^verbatim>\<open>datetime.combine(date, time, tz)\<close> and \<^verbatim>\<open>aware.astimezone(tz)\<close>.\<close>

definition combine :: "int \<Rightarrow> nat \<Rightarrow> int \<Rightarrow> datetime" where
  "combine d t tz = \<lparr>date_ordinal = d, time_of_day = t, tzinfo = Some tz\<rparr>"

definition astimezone :: "datetime \<Rightarrow> int \<Rightarrow> int \<Rightarrow> datetime" where
  "astimezone dt offset tz =
     (let local = date_ordinal dt * microseconds_per_day + int (time_of_day dt) - offset + tz
      in \<lparr>date_ordinal = local div microseconds_per_day,
          time_of_day = nat (local mod microseconds_per_day),
          tzinfo = Some tz\<rparr>)"

text \<open>
  The head of \<^verbatim>\<open>is_open_at_time\<close>: a naive time is taken as business time, an aware one
  with another offset is converted.
\<close>

definition to_business_timezone :: "datetime \<Rightarrow> datetime" where
  "to_business_timezone check_time =
     (case tzinfo check_time of
        None \<Rightarrow> check_time\<lparr>tzinfo := Some business_timezone\<rparr>
      | Some offset \<Rightarrow>
          if offset \<noteq> business_timezone then astimezone check_time offset business_timezone
          else check_time)"

text \<open>
  The loop of \<^verbatim>\<open>_get_next_open_time\<close> over \<^verbatim>\<open>range(1, 8)\<close>; it returns at the first day
  that has an entry, is not closed and has an opening time.
\<close>

fun next_open_day :: "schedule \<Rightarrow> int \<Rightarrow> nat list \<Rightarrow> datetime option" where
  "next_open_day hours check_date [] = None"
| "next_open_day hours check_date (i # rest) =
     (let next_date = check_date + int i;
          next_weekday = weekday_of next_date
      in case hours next_weekday of
           None \<Rightarrow> next_open_day hours check_date rest
         | Some next_hours \<Rightarrow>
             (case open_time next_hours of
                None \<Rightarrow> next_open_day hours check_date rest
              | Some opening \<Rightarrow>
                  if \<not> is_closed next_hours
                  then Some (combine next_date opening business_timezone)
                  else next_open_day hours check_date rest))"

definition get_next_open_time :: "schedule \<Rightarrow> datetime \<Rightarrow> datetime option" where
  "get_next_open_time hours from_time =
     (let check_date = date_ordinal from_time;
          current_time = time_of_day from_time;
          today_hours = hours (weekday from_time)
      in if (case today_hours of
               None \<Rightarrow> False
             | Some h \<Rightarrow> \<not> is_closed h \<and>
                 (case open_time h of None \<Rightarrow> False | Some opening \<Rightarrow> current_time < opening))
         then (case today_hours of
                 None \<Rightarrow> None
               | Some h \<Rightarrow>
                   (case open_time h of
                      None \<Rightarrow> None
                    | Some opening \<Rightarrow> Some (combine check_date opening business_timezone)))
         else next_open_day hours check_date [1..<8])"

definition is_open_at_time :: "schedule \<Rightarrow> datetime \<Rightarrow> business_hours_validation_result" where
  "is_open_at_time hours t =
     (let check_time = to_business_timezone t;
          current_time = time_of_day check_time
      in case hours (weekday check_time) of
           None \<Rightarrow>
             \<lparr>is_open = False, hours_reason = Some ''no_hours_defined'', next_open_time = None\<rparr>
         | Some business_hours \<Rightarrow>
             if is_closed business_hours
             then \<lparr>is_open = False, hours_reason = Some ''closed_today'',
                   next_open_time = get_next_open_time hours check_time\<rparr>
             else (case (open_time business_hours, close_time business_hours) of
                     (Some opening, Some closing) \<Rightarrow>
                       if opening \<le> current_time \<and> current_time \<le> closing
                       then \<lparr>is_open = True, hours_reason = None, next_open_time = None\<rparr>
                       else \<lparr>is_open = False,
                             hours_reason = Some (if current_time < opening
                                                  then ''before_opening'' else ''after_closing''),
                             next_open_time = get_next_open_time hours check_time\<rparr>
                   | _ \<Rightarrow>
                       \<lparr>is_open = False, hours_reason = Some ''hours_not_configured'',
                        next_open_time = None\<rparr>))"

text \<open>\<^verbatim>\<open>update_hours_for_day\<close>: the only write to the schedule.\<close>

definition update_hours_for_day ::
  "schedule \<Rightarrow> nat \<Rightarrow> nat option \<Rightarrow> nat option \<Rightarrow> bool \<Rightarrow> error + schedule" where
  "update_hours_for_day hours wd opening closing closed_flag =
     (if wd \<notin> set [0..<7]
      then Inl (ValueError ''Weekday must be between 0 (Monday) and 6 (Sunday)'')
      else Inr (hours(wd \<mapsto> \<lparr>day = wd, open_time = opening, close_time = closing,
                              is_closed = closed_flag\<rparr>)))"

text \<open>
  \<^verbatim>\<open>PUT /admin/business-hours/day/{day_name}\<close>. The request schema admits a time only in
  the form \<^verbatim>\<open>HH:MM\<close> (its pattern), so a time of the payload is the hour and the minute
  it denotes, and \<^verbatim>\<open>time(hour, minute)\<close> cannot fail. \<^verbatim>\<open>str.lower\<close> is modelled on
  ASCII letters.
\<close>

record business_hours_update =
  payload_open_time :: "(nat \<times> nat) option"
  payload_close_time :: "(nat \<times> nat) option"
  payload_is_closed :: "bool option"

definition lower :: "string \<Rightarrow> string" where
  "lower s = map (\<lambda>c. let n = (of_char c :: nat)
                        in if 65 \<le> n \<and> n \<le> 90 then char_of (n + 32) else c) s"

definition day_mapping :: "string \<rightharpoonup> nat" where
  "day_mapping = map_of
     [(''monday'', 0), (''tuesday'', 1), (''wednesday'', 2), (''thursday'', 3),
      (''friday'', 4), (''saturday'', 5), (''sunday'', 6)]"

definition update_day_hours ::
  "schedule \<Rightarrow> user \<Rightarrow> string \<Rightarrow> business_hours_update \<Rightarrow> error + schedule" where
  "update_day_hours hours u day_name payload =
     (case require_admin u of
        Inl e \<Rightarrow> Inl e
      | Inr _ \<Rightarrow>
     (case day_mapping (lower day_name) of
        None \<Rightarrow> Inl (HTTPException 400
          ''Invalid day name. Use: monday, tuesday, wednesday, thursday, friday, saturday, sunday'')
      | Some wd \<Rightarrow>
          let opening = map_option (\<lambda>(h, m). time h m) (payload_open_time payload);
              closing = map_option (\<lambda>(h, m). time h m) (payload_close_time payload)
          in if (case (opening, closing) of (Some a, Some b) \<Rightarrow> a \<ge> b | _ \<Rightarrow> False)
             then Inl (HTTPException 400 ''Opening time must be before closing time'')
             else (case hours wd of
                     None \<Rightarrow> Inl (HTTPException 500 ''Failed to get current hours'')
                   | Some current_hours \<Rightarrow>
                       update_hours_for_day hours wd
                         (if payload_open_time payload \<noteq> None then opening
                          else open_time current_hours)
                         (if payload_close_time payload \<noteq> None then closing
                          else close_time current_hours)
                         (case payload_is_closed payload of
                            Some c \<Rightarrow> c | None \<Rightarrow> is_closed current_hours))))"

section \<open>Promo codes\<close>

text \<open>
  Amounts are \<^verbatim>\<open>decimal.Decimal\<close> values, modelled as the rationals they denote; all the
  amounts of the pricing path have far fewer than the 28 significant digits of the decimal
  context, within which \<^verbatim>\<open>*\<close>, \<^verbatim>\<open>/ Decimal('100')\<close>, \<^verbatim>\<open>+\<close> and \<^verbatim>\<open>-\<close> are exact.
  \<^verbatim>\<open>x.quantize(Decimal('0.01'))\<close> rounds to two decimal places with the context's rounding,
  \<^verbatim>\<open>ROUND_HALF_EVEN\<close>.
\<close>

definition round_half_even :: "rat \<Rightarrow> int" where
  "round_half_even x =
     (let f = \<lfloor>x\<rfloor>; d = x - of_int f
      in if d < 1 / 2 then f
         else if d > 1 / 2 then f + 1
         else if even f then f else f + 1)"

definition quantize :: "rat \<Rightarrow> rat" where
  "quantize x = of_int (round_half_even (x * 100)) / 100"

text \<open>
  \<^verbatim>\<open>models.Promocode\<close>: the persisted columns, and the alias properties the evaluator reads.
  \<open>valid_from\<close> is not persisted: the property returns \<^verbatim>\<open>None\<close> and its setter does
  nothing. \<open>min_subtotal\<close> returns \<^verbatim>\<open>float(min_order_amount)\<close>, which the evaluator turns
  back into a decimal through \<^verbatim>\<open>str\<close>: for a \<^verbatim>\<open>Numeric(10, 2)\<close> value this is the same
  number.
\<close>

record promocode =
  code :: string
  kind :: string
  promo_value :: "rat option"
  min_order_amount :: "rat option"
  max_uses :: "int option"
  current_uses :: int
  is_active :: bool
  expires_at :: "instant option"
  per_user_limit :: "int option"

definition active :: "promocode \<Rightarrow> bool" where
  "active p = is_active p"

definition min_subtotal :: "promocode \<Rightarrow> rat option" where
  "min_subtotal p = min_order_amount p"

definition valid_to :: "promocode \<Rightarrow> instant option" where
  "valid_to p = expires_at p"

definition valid_from :: "promocode \<Rightarrow> instant option" where
  "valid_from p = None"

definition set_valid_from :: "instant option \<Rightarrow> promocode \<Rightarrow> promocode" where
  "set_valid_from v p = p"

type_synonym promo_table = "string \<rightharpoonup> promocode"

record promo_validation_result =
  valid :: bool
  discount :: rat
  reason :: "string option"

text \<open>
  The discount before the clamp (\<^verbatim>\<open>validator.py\<close>, lines 39 to 43).
  \<^verbatim>\<open>Decimal(str(promo.value))\<close> raises \<^verbatim>\<open>InvalidOperation\<close> when the nullable column
  \<open>value\<close> is \<^verbatim>\<open>None\<close>; a kind other than the two named ones leaves the discount at 0.
\<close>

definition raw_discount :: "promocode \<Rightarrow> rat \<Rightarrow> error + rat" where
  "raw_discount promo sub =
     (if kind promo = ''percent''
      then (case promo_value promo of
              None \<Rightarrow> Inl InvalidOperation
            | Some v \<Rightarrow> Inr (quantize (sub * v / 100)))
      else if kind promo = ''amount''
      then (case promo_value promo of
              None \<Rightarrow> Inl InvalidOperation
            | Some v \<Rightarrow> Inr v)
      else Inr 0)"

text \<open>
  \<^verbatim>\<open>calculate_discount\<close>; \<open>utcnow\<close> is the value of \<^verbatim>\<open>datetime.utcnow()\<close> it reads. The
  lookup by the unique column \<open>code\<close> is the table's map.
\<close>

definition calculate_discount ::
  "promo_table \<Rightarrow> string option \<Rightarrow> rat \<Rightarrow> instant \<Rightarrow> error + promo_validation_result" where
  "calculate_discount db promo_code sub utcnow =
     (case promo_code of
        None \<Rightarrow> Inr \<lparr>valid = True, discount = 0, reason = None\<rparr>
      | Some c \<Rightarrow>
          if c = [] then Inr \<lparr>valid = True, discount = 0, reason = None\<rparr>
          else (case db c of
            None \<Rightarrow> Inr \<lparr>valid = False, discount = 0, reason = Some ''invalid_or_inactive''\<rparr>
          | Some promo \<Rightarrow>
              if \<not> is_active promo
              then Inr \<lparr>valid = False, discount = 0, reason = Some ''invalid_or_inactive''\<rparr>
              else if (case valid_from promo of None \<Rightarrow> False | Some start \<Rightarrow> utcnow < start)
              then Inr \<lparr>valid = False, discount = 0, reason = Some ''not_started''\<rparr>
              else if (case valid_to promo of None \<Rightarrow> False | Some stop \<Rightarrow> utcnow > stop)
              then Inr \<lparr>valid = False, discount = 0, reason = Some ''expired''\<rparr>
              else if (case min_subtotal promo of None \<Rightarrow> False | Some m \<Rightarrow> sub < m)
              then Inr \<lparr>valid = False, discount = 0, reason = Some ''min_subtotal_not_met''\<rparr>
              else (case raw_discount promo sub of
                      Inl e \<Rightarrow> Inl e
                    | Inr d \<Rightarrow> Inr \<lparr>valid = True, discount = min d sub, reason = None\<rparr>)))"

section \<open>Pricing\<close>

text \<open>Python's \<^verbatim>\<open>str\<close> of an integer, for the ids that the error details quote.\<close>

function str_nat :: "nat \<Rightarrow> string" where
  "str_nat n =
     (if n < 10 then [char_of (48 + n)]
      else str_nat (n div 10) @ [char_of (48 + n mod 10)])"
  by pat_completeness auto
termination
  by (relation "measure id") auto

declare str_nat.simps [simp del]

definition str_int :: "int \<Rightarrow> string" where
  "str_int i = (if i < 0 then CHR ''-'' # str_nat (nat (- i)) else str_nat (nat i))"

text \<open>
  The tables order creation reads (\<^verbatim>\<open>models.MenuItem\<close>, \<^verbatim>\<open>models.ModificationType\<close>,
  \<^verbatim>\<open>models.Promocode\<close>) and its request (\<^verbatim>\<open>OrderCreateRequest\<close>, \<^verbatim>\<open>OrderItemIn\<close>). Of a
  requested modification only its \<^verbatim>\<open>modification_type_id\<close> is read; an absent list of
  modifications is the empty list (both are false in \<^verbatim>\<open>if it.modifications\<close>).
\<close>

record menu_item =
  price :: rat
  item_is_active :: bool

record modification_type =
  modification_is_active :: bool

record database =
  menu_items :: "int \<rightharpoonup> menu_item"
  modification_types :: "int \<rightharpoonup> modification_type"
  promocodes :: promo_table

record order_item_in =
  item_id :: int
  qty :: int
  modifications :: "int list"

record order_create_request =
  items :: "order_item_in list"
  promocode :: "string option"

text \<open>
  The check of the requested modifications: the first one, in request order, whose type is
  not among the active types of the table raises.
\<close>

definition check_modifications :: "database \<Rightarrow> order_item_in list \<Rightarrow> error + unit" where
  "check_modifications db its =
     (let all_mod_ids = \<Union> (set (map (set \<circ> modifications) its));
          modification_types_map =
            (\<lambda>m. case modification_types db m of
                    None \<Rightarrow> None
                  | Some mt \<Rightarrow> if m \<in> all_mod_ids \<and> modification_is_active mt
                              then Some mt else None)
      in case find (\<lambda>m. modification_types_map m = None) (concat (map modifications its)) of
           None \<Rightarrow> Inr ()
         | Some m \<Rightarrow> Inl (HTTPException 400 (''Invalid modification type: '' @ str_int m)))"

text \<open>
  The loop of \<^verbatim>\<open>create_order\<close> over the requested items (\<^verbatim>\<open>orders.py\<close>, lines 84 to 95),
  with the running \<open>subtotal\<close> as its state; the list \<^verbatim>\<open>lines\<close>, which only feeds the
  rows of the order's items, is left out.
\<close>

fun order_lines :: "(int \<rightharpoonup> menu_item) \<Rightarrow> order_item_in list \<Rightarrow> rat \<Rightarrow> error + rat" where
  "order_lines items_map [] sub = Inr sub"
| "order_lines items_map (it # rest) sub =
     (case items_map (item_id it) of
        None \<Rightarrow> Inl (HTTPException 400 (''Invalid item: '' @ str_int (item_id it)))
      | Some mi \<Rightarrow>
          if \<not> item_is_active mi
          then Inl (HTTPException 400 (''Invalid item: '' @ str_int (item_id it)))
          else if qty it \<le> 0
          then Inl (HTTPException 400 ''Quantity must be positive'')
          else let unit_price = price mi;
                   line_total = quantize (unit_price * of_int (qty it))
               in order_lines items_map rest (sub + line_total))"

definition error_messages :: "string \<rightharpoonup> string" where
  "error_messages = map_of
     [(''before_opening'', ''We are closed. Orders can only be placed during business hours.''),
      (''after_closing'', ''We are closed. Orders can only be placed during business hours.''),
      (''closed_today'', ''We are closed today.''),
      (''hours_not_configured'', ''Service temporarily unavailable.''),
      (''no_hours_defined'', ''Service temporarily unavailable.'')]"

text \<open>
  \<^verbatim>\<open>POST /orders\<close> up to the construction of the order row. \<open>hours\<close> is the schedule of
  the business-hours service and \<open>current_time\<close> the value of its \<^verbatim>\<open>get_current_time()\<close>;
  \<open>utcnow\<close> is the clock the promo evaluator and the row read. The inserts, the saved
  address and the notifications that follow do not change the amounts.
\<close>

definition create_order ::
  "schedule \<Rightarrow> datetime \<Rightarrow> instant \<Rightarrow> database \<Rightarrow> user \<Rightarrow> order_create_request
   \<Rightarrow> error + order" where
  "create_order hours current_time utcnow db u payload =
     (if items payload = [] then Inl (HTTPException 400 ''Items required'')
      else
        let hours_validation = is_open_at_time hours current_time
        in if \<not> is_open hours_validation
           then Inl (BusinessClosed
                  (case (case hours_reason hours_validation of
                           None \<Rightarrow> None | Some r \<Rightarrow> error_messages r) of
                     None \<Rightarrow> ''We are currently closed.''
                   | Some msg \<Rightarrow> msg)
                  (next_open_time hours_validation))
           else
             let item_ids = map item_id (items payload);
                 items_map = menu_items db |` set item_ids
             in (case (if \<exists>it \<in> set (items payload). modifications it \<noteq> []
                       then check_modifications db (items payload) else Inr ()) of
                   Inl e \<Rightarrow> Inl e
                 | Inr _ \<Rightarrow>
                (case order_lines items_map (items payload) 0 of
                   Inl e \<Rightarrow> Inl e
                 | Inr sub \<Rightarrow>
                (case calculate_discount (promocodes db) (promocode payload) sub utcnow of
                   Inl e \<Rightarrow> Inl e
                 | Inr promo_res \<Rightarrow>
                     let disc = (if valid promo_res then discount promo_res else 0);
                         tot = quantize (max 0 (sub - disc))
                     in Inr \<lparr>user_id = Some (uid u),
                             status = ''NEW'',
                             subtotal = sub,
                             order_discount = disc,
                             total = tot,
                             promocode_code =
                               (if valid promo_res \<and> promocode payload \<noteq> None
                                   \<and> promocode payload \<noteq> Some []
                                then promocode payload else None),
                             updated_at = utcnow\<rparr>))))"



record price_details_line =
  line_item_id :: int
  line_qty :: int
  unit_price :: rat
  line_total :: rat




text \<open>
  \<^verbatim>\<open>POST /admin/promo/create\<close> (\<^verbatim>\<open>create_promo\<close> in \<^verbatim>\<open>admin_promo.py\<close>). The new row is
  built through the alias setters; \<^verbatim>\<open>discount_percent\<close> is stored as it comes, with no
  check of its sign. The column \<open>value\<close> is \<^verbatim>\<open>Numeric(10, 2)\<close>: the model stores the
  number of the payload, taken with at most two decimals.
\<close>

record promo_code_create =
  create_code :: string
  discount_percent :: rat
  create_min_order_amount :: "rat option"
  create_max_uses :: "int option"
  create_expires_at :: "instant option"

definition create_promo :: "promo_code_create \<Rightarrow> promo_table \<Rightarrow> user \<Rightarrow> error + promo_table" where
  "create_promo payload db u =
     (case require_admin u of
        Inl e \<Rightarrow> Inl e
      | Inr _ \<Rightarrow>
          (case db (create_code payload) of
             Some existing \<Rightarrow> Inl (HTTPException 400 ''Promo code already exists'')
           | None \<Rightarrow>
               Inr (db(create_code payload \<mapsto>
                      \<lparr>code = create_code payload,
                       kind = ''percent'',
                       promo_value = Some (discount_percent payload),
                       min_order_amount = create_min_order_amount payload,
                       max_uses = create_max_uses payload,
                       current_uses = 0,
                       is_active = True,
                       expires_at = create_expires_at payload,
                       per_user_limit = None\<rparr>))))"

section \<open>Specification-side notions and sample data\<close>

text \<open>
  The rounded total of one line, as the specification words it:
  \<open>round(unit_price * quantity, 2)\<close>, the unit price being the price of the referenced menu
  item. A line is priceable when its item exists, is active, and its quantity is positive.
\<close>

definition rounded_line_total :: "(int \<rightharpoonup> menu_item) \<Rightarrow> order_item_in \<Rightarrow> rat" where
  "rounded_line_total m it =
     (case m (item_id it) of
        None \<Rightarrow> 0
      | Some mi \<Rightarrow> quantize (price mi * of_int (qty it)))"

definition priceable :: "(int \<rightharpoonup> menu_item) \<Rightarrow> order_item_in \<Rightarrow> bool" where
  "priceable m it =
     (case m (item_id it) of
        None \<Rightarrow> False
      | Some mi \<Rightarrow> item_is_active mi \<and> 0 < qty it)"

text \<open>
  The end-to-end example of the specification: two menu items priced 1000 and 500, the
  promo code SAVE10 (percent, value 10, minimum subtotal 0, active, no date bounds), and a
  customer ordering two of the first item and one of the second on a Monday at noon,
  business time.
\<close>

definition save10 :: promocode where
  "save10 =
     \<lparr>code = ''SAVE10'', kind = ''percent'', promo_value = Some 10,
      min_order_amount = Some 0, max_uses = None, current_uses = 0,
      is_active = True, expires_at = None, per_user_limit = None\<rparr>"

definition example_db :: database where
  "example_db =
     \<lparr>menu_items = map_of [(1, \<lparr>price = 1000, item_is_active = True\<rparr>),
                            (2, \<lparr>price = 500, item_is_active = True\<rparr>)],
      modification_types = Map.empty,
      promocodes = map_of [(''SAVE10'', save10)]\<rparr>"

definition example_request :: order_create_request where
  "example_request =
     \<lparr>items = [\<lparr>item_id = 1, qty = 2, modifications = []\<rparr>,
               \<lparr>item_id = 2, qty = 1, modifications = []\<rparr>],
      promocode = Some ''SAVE10''\<rparr>"

definition monday_noon :: datetime where
  "monday_noon = \<lparr>date_ordinal = 1, time_of_day = time 12 0, tzinfo = Some business_timezone\<rparr>"

definition customer :: user where
  "customer = \<lparr>uid = 7, role = ''user''\<rparr>"


text \<open>
  Sample promo tables: one holding only a deactivated code; one holding SAVE10 after a
  start date was assigned to it; one holding a code of an unknown kind, as
  \<^verbatim>\<open>POST /admin/promo/generate\<close> stores whatever kind the request names.
\<close>

definition retired_table :: promo_table where
  "retired_table = map_of [(''OLD'', save10\<lparr>code := ''OLD'', is_active := False\<rparr>)]"

definition scheduled_table :: promo_table where
  "scheduled_table = map_of [(''SAVE10'', set_valid_from (Some 100) save10)]"






text \<open>
  An administrator, a request that creates a promo code of minus ten percent, and the
  table that holds it.
\<close>

definition administrator :: user where
  "administrator = \<lparr>uid = 1, role = ''admin''\<rparr>"

definition negative_code :: promo_code_create where
  "negative_code =
     \<lparr>create_code = ''NEG'', discount_percent = - 10, create_min_order_amount = None,
      create_max_uses = None, create_expires_at = None\<rparr>"

definition negative_table :: promo_table where
  "negative_table = map_of
     [(''NEG'', \<lparr>code = ''NEG'', kind = ''percent'', promo_value = Some (- 10),
                 min_order_amount = None, max_uses = None, current_uses = 0,
                 is_active = True, expires_at = None, per_user_limit = None\<rparr>)]"

text \<open>A courier, and an order table whose order 1 is delivered and whose order 2 is new.\<close>

definition courier :: user where
  "courier = \<lparr>uid = 2, role = ''courier''\<rparr>"

definition delivered_order :: order where
  "delivered_order =
     \<lparr>user_id = Some 7, status = ''DELIVERED'', subtotal = 2500, order_discount = 250,
      total = 2250, promocode_code = Some ''SAVE10'', updated_at = 0\<rparr>"

definition order_book :: order_table where
  "order_book = map_of [(1, delivered_order), (2, delivered_order\<lparr>status := ''NEW''\<rparr>)]"

text \<open>
  The opening instant of a day: set when the day's weekday has a schedule entry that is
  not closed and has an opening time.
\<close>

definition opening_instant :: "schedule \<Rightarrow> int \<Rightarrow> datetime option" where
  "opening_instant hours d =
     (case hours (weekday_of d) of
        None \<Rightarrow> None
      | Some h \<Rightarrow>
          if is_closed h then None
          else map_option (\<lambda>opening. combine d opening business_timezone) (open_time h))"

text \<open>
  The default schedule after an administrator has moved Monday's opening to 23:00 and
  left its closing time alone; and three Monday instants in business time (ordinal 1 is a
  Monday).
\<close>

definition late_opening :: business_hours_update where
  "late_opening =
     \<lparr>payload_open_time = Some (23, 0), payload_close_time = None, payload_is_closed = None\<rparr>"

definition late_monday :: schedule where
  "late_monday = default_hours
     (0 \<mapsto> \<lparr>day = 0, open_time = Some (time 23 0), close_time = Some (time 22 0),
             is_closed = False\<rparr>)"

definition monday_0859 :: datetime where
  "monday_0859 = \<lparr>date_ordinal = 1, time_of_day = time 8 59, tzinfo = Some business_timezone\<rparr>"

definition monday_2230 :: datetime where
  "monday_2230 = \<lparr>date_ordinal = 1, time_of_day = time 22 30, tzinfo = Some business_timezone\<rparr>"

definition monday_2300 :: datetime where
  "monday_2300 = \<lparr>date_ordinal = 1, time_of_day = time 23 0, tzinfo = Some business_timezone\<rparr>"

definition weekday_hours :: business_hours where
  "weekday_hours =
     \<lparr>day = 0, open_time = Some (time 9 0), close_time = Some (time 22 0), is_closed = False\<rparr>"

definition late_hours :: business_hours where
  "late_hours =
     \<lparr>day = 0, open_time = Some (time 23 0), close_time = Some (time 22 0), is_closed = False\<rparr>"

section \<open>Theorems\<close>

lemma transition_eval:
  "transition c r =
     (if r \<in> {''COOKING'', ''ON_WAY'', ''DELIVERED'', ''CANCELLED''}
      then (if (c = ''NEW'' \<and> (r = ''COOKING'' \<or> r = ''CANCELLED''))
             \<or> (c = ''COOKING'' \<and> (r = ''ON_WAY'' \<or> r = ''CANCELLED''))
             \<or> (c = ''ON_WAY'' \<and> (r = ''DELIVERED'' \<or> r = ''CANCELLED''))
            then Inr r
            else Inl (HTTPException 400
                   (''Invalid status transition from '' @ c @ '' to '' @ r)))
      else Inl (HTTPException 400
             ''Invalid status. Couriers can only set: COOKING, ON_WAY, DELIVERED, CANCELLED''))"
  by (simp add: transition_def valid_courier_statuses_def valid_transitions_def)

lemma spec_edges_iff:
  "(c, r) \<in> spec_edges \<longleftrightarrow>
     (c = ''NEW'' \<and> (r = ''COOKING'' \<or> r = ''CANCELLED''))
     \<or> (c = ''COOKING'' \<and> (r = ''ON_WAY'' \<or> r = ''CANCELLED''))
     \<or> (c = ''ON_WAY'' \<and> (r = ''DELIVERED'' \<or> r = ''CANCELLED''))"
  by (auto simp: spec_edges_def)

text \<open>
  C2. On the five states (and on every other pair of strings) the guard returns the requested status exactly on the six edges
  of the specification and raises HTTP 400 on every other pair; so it raises from
  DELIVERED and from CANCELLED, on every self-transition and on (NEW, ON_WAY).
\<close>

theorem transition_succeeds_exactly_on_edges:
  "(transition current requested = Inr requested \<longleftrightarrow> (current, requested) \<in> spec_edges)
       \<and> ((current, requested) \<notin> spec_edges \<longrightarrow>
            (\<exists>d. transition current requested = Inl (HTTPException 400 d)))
       \<and> (current \<in> {''DELIVERED'', ''CANCELLED''} \<longrightarrow>
            (\<exists>d. transition current requested = Inl (HTTPException 400 d)))
       \<and> (\<exists>d. transition current current = Inl (HTTPException 400 d))
       \<and> (\<exists>d. transition ''NEW'' ''ON_WAY'' = Inl (HTTPException 400 d))"
proof -
  have edge: "transition current requested = Inr requested \<longleftrightarrow> (current, requested) \<in> spec_edges"
    unfolding transition_eval spec_edges_iff by auto
  have off: "(current, requested) \<notin> spec_edges \<longrightarrow>
      (\<exists>d. transition current requested = Inl (HTTPException 400 d))"
    unfolding transition_eval spec_edges_iff by auto
  have terminal: "current \<in> {''DELIVERED'', ''CANCELLED''} \<longrightarrow>
      (\<exists>d. transition current requested = Inl (HTTPException 400 d))"
    unfolding transition_eval by auto
  have self: "\<exists>d. transition current current = Inl (HTTPException 400 d)"
    unfolding transition_eval by auto
  have skip: "\<exists>d. transition ''NEW'' ''ON_WAY'' = Inl (HTTPException 400 d)"
    unfolding transition_eval by simp
  from edge off terminal self skip show ?thesis by blast
qed

theorem transition_succeeds_exactly_on_edges_witness:
  "transition ''NEW'' ''COOKING'' = Inr ''COOKING''
   \<and> (''NEW'', ''COOKING'') \<in> spec_edges
   \<and> (''DELIVERED'', ''NEW'') \<notin> spec_edges
   \<and> (\<exists>d. transition ''DELIVERED'' ''NEW'' = Inl (HTTPException 400 d))"
  using transition_succeeds_exactly_on_edges [of "''NEW''" "''COOKING''"]
    transition_succeeds_exactly_on_edges [of "''DELIVERED''" "''NEW''"]
  by (simp add: spec_edges_def)

subsection \<open>Pricing lemmas\<close>

lemma quantize_of_int [simp]: "quantize (of_int n) = of_int n"
  by (simp add: quantize_def round_half_even_def Let_def)

lemma quantize_numeral [simp]: "quantize (numeral n) = numeral n"
  using quantize_of_int [of "numeral n"] by simp

lemma quantize_zero [simp]: "quantize 0 = 0"
  using quantize_of_int [of 0] by simp

lemma order_lines_Inr:
  "order_lines m its s = Inr r \<longleftrightarrow>
     (\<forall>it \<in> set its. priceable m it) \<and> r = s + sum_list (map (rounded_line_total m) its)"
proof (induction its arbitrary: s)
  case Nil
  show ?case by auto
next
  case (Cons it rest)
  show ?case
  proof (cases "m (item_id it)")
    case None
    then show ?thesis by (simp add: priceable_def)
  next
    case (Some mi)
    show ?thesis
    proof (cases "item_is_active mi \<and> 0 < qty it")
      case True
      then have "order_lines m (it # rest) s =
          order_lines m rest (s + quantize (price mi * of_int (qty it)))"
        using Some by (simp add: Let_def)
      moreover have "priceable m it" using True Some by (simp add: priceable_def)
      moreover have "rounded_line_total m it = quantize (price mi * of_int (qty it))"
        using Some by (simp add: rounded_line_total_def)
      ultimately show ?thesis using Cons.IH by (simp add: add.assoc)
    next
      case False
      then have "\<not> priceable m it" using Some by (simp add: priceable_def)
      moreover have "\<exists>e. order_lines m (it # rest) s = Inl e"
        using False Some by (auto simp: Let_def)
      ultimately show ?thesis by auto
    qed
  qed
qed

lemma restricted_line:
  assumes "item_id it \<in> S"
  shows "rounded_line_total (m |` S) it = rounded_line_total m it"
    and "priceable (m |` S) it = priceable m it"
  using assms by (simp_all add: rounded_line_total_def priceable_def)

lemma restricted_sum:
  "sum_list (map (rounded_line_total (m |` set (map item_id its))) its)
   = sum_list (map (rounded_line_total m) its)"
proof -
  have "map (rounded_line_total (m |` set (map item_id its))) its
        = map (rounded_line_total m) its"
    by (rule map_cong) (simp_all add: restricted_line)
  then show ?thesis by (rule arg_cong)
qed

lemma restricted_priceable:
  "(\<forall>it \<in> set its. priceable (m |` set (map item_id its)) it)
   \<longleftrightarrow> (\<forall>it \<in> set its. priceable m it)"
  by (auto simp: restricted_line)

text \<open>What a successful order creation has computed.\<close>

lemma create_order_Inr:
  assumes "create_order hours ct now db u payload = Inr ord"
  shows "\<exists>res. items payload \<noteq> []
           \<and> is_open (is_open_at_time hours ct)
           \<and> (\<forall>it \<in> set (items payload). priceable (menu_items db) it)
           \<and> subtotal ord = sum_list (map (rounded_line_total (menu_items db)) (items payload))
           \<and> calculate_discount (promocodes db) (promocode payload) (subtotal ord) now = Inr res
           \<and> order_discount ord = (if valid res then discount res else 0)
           \<and> total ord = quantize (max 0 (subtotal ord - order_discount ord))
           \<and> status ord = ''NEW''"
proof -
  let ?m = "menu_items db |` set (map item_id (items payload))"
  from assms have nonempty: "items payload \<noteq> []" and op: "is_open (is_open_at_time hours ct)"
    by (auto simp: create_order_def Let_def split: if_splits)
  from assms nonempty op obtain sub where
    lines: "order_lines ?m (items payload) 0 = Inr sub"
    by (cases "order_lines ?m (items payload) 0")
       (auto simp: create_order_def Let_def split: if_splits sum.splits)
  from assms nonempty op lines obtain res where
    res: "calculate_discount (promocodes db) (promocode payload) sub now = Inr res"
    by (cases "calculate_discount (promocodes db) (promocode payload) sub now")
       (auto simp: create_order_def Let_def split: if_splits sum.splits)
  from assms nonempty op lines res have ord:
    "subtotal ord = sub" "order_discount ord = (if valid res then discount res else 0)"
    "total ord = quantize (max 0 (sub - (if valid res then discount res else 0)))"
    "status ord = ''NEW''"
    by (auto simp: create_order_def Let_def split: if_splits sum.splits)
  from lines have "\<forall>it \<in> set (items payload). priceable ?m it"
    and "sub = sum_list (map (rounded_line_total ?m) (items payload))"
    by (simp_all add: order_lines_Inr)
  then have "\<forall>it \<in> set (items payload). priceable (menu_items db) it"
    and "sub = sum_list (map (rounded_line_total (menu_items db)) (items payload))"
    unfolding restricted_priceable restricted_sum by blast+
  with nonempty op res ord show ?thesis by auto
qed

lemma open_monday_noon: "is_open (is_open_at_time default_hours monday_noon)"
  by (simp add: is_open_at_time_def to_business_timezone_def monday_noon_def weekday_def
      weekday_of_def default_hours_def time_def)




subsection \<open>The promo evaluator\<close>





text \<open>
  C9 (as amended). The evaluator does not tell a nonexistent code from a deactivated one:
  for a code with no promo record and for a record whose \<open>is_active\<close> is false it
  returns invalid with the same reason, \<open>invalid_or_inactive\<close>.
\<close>

theorem missing_and_inactive_share_reason:
  "(c \<noteq> [] \<and> db c = None \<longrightarrow>
      calculate_discount db (Some c) sub now =
        Inr \<lparr>valid = False, discount = 0, reason = Some ''invalid_or_inactive''\<rparr>)
   \<and> (c \<noteq> [] \<and> db c = Some p \<and> \<not> is_active p \<longrightarrow>
      calculate_discount db (Some c) sub now =
        Inr \<lparr>valid = False, discount = 0, reason = Some ''invalid_or_inactive''\<rparr>)"
  by (simp add: calculate_discount_def)

theorem missing_and_inactive_share_reason_witness:
  "''NOPE'' \<noteq> [] \<and> retired_table ''NOPE'' = None
   \<and> calculate_discount retired_table (Some ''NOPE'') 100 0 =
        Inr \<lparr>valid = False, discount = 0, reason = Some ''invalid_or_inactive''\<rparr>
   \<and> ''OLD'' \<noteq> [] \<and> (\<exists>p. retired_table ''OLD'' = Some p \<and> \<not> is_active p)
   \<and> calculate_discount retired_table (Some ''OLD'') 100 0 =
        Inr \<lparr>valid = False, discount = 0, reason = Some ''invalid_or_inactive''\<rparr>"
  using missing_and_inactive_share_reason
          [where c = "''NOPE''" and db = retired_table and sub = 100 and now = 0]
        missing_and_inactive_share_reason
          [where c = "''OLD''" and db = retired_table and sub = 100 and now = 0
             and p = "save10\<lparr>code := ''OLD'', is_active := False\<rparr>"]
  by (simp add: retired_table_def)

theorem missing_and_inactive_counterexample:
  "retired_table ''NOPE'' = None
   \<and> map_option is_active (retired_table ''OLD'') = Some False
   \<and> calculate_discount retired_table (Some ''NOPE'') 100 0 =
        Inr \<lparr>valid = False, discount = 0, reason = Some ''invalid_or_inactive''\<rparr>
   \<and> calculate_discount retired_table (Some ''OLD'') 100 0 =
        Inr \<lparr>valid = False, discount = 0, reason = Some ''invalid_or_inactive''\<rparr>"
  by (simp add: calculate_discount_def retired_table_def save10_def)

text \<open>
  C8 (as amended). No stored promo record has a start date: \<open>valid_from\<close> reads as unset
  whatever was assigned to it, so the evaluator never answers \<open>not_started\<close>.
\<close>

theorem not_started_is_unreachable:
  "valid_from (set_valid_from start p) = None
   \<and> (calculate_discount db c sub now = Inr res \<longrightarrow> reason res \<noteq> Some ''not_started'')"
  by (auto simp: calculate_discount_def valid_from_def split: option.splits if_splits sum.splits)

theorem not_started_is_unreachable_witness:
  "valid_from (set_valid_from (Some 100) save10) = None
   \<and> calculate_discount scheduled_table (Some ''SAVE10'') 2500 50 =
        Inr \<lparr>valid = True, discount = 250, reason = None\<rparr>
   \<and> reason \<lparr>valid = True, discount = 250, reason = None\<rparr> \<noteq> Some ''not_started''"
  using not_started_is_unreachable
          [where start = "Some 100" and p = save10 and db = scheduled_table
             and c = "Some ''SAVE10''" and sub = 2500 and now = 50
             and res = "\<lparr>valid = True, discount = 250, reason = None\<rparr>"]
  by (simp add: calculate_discount_def raw_discount_def scheduled_table_def set_valid_from_def
      save10_def valid_from_def valid_to_def min_subtotal_def)

theorem not_started_counterexample:
  "(50 :: instant) < 100
   \<and> calculate_discount scheduled_table (Some ''SAVE10'') 2500 50 =
        Inr \<lparr>valid = True, discount = 250, reason = None\<rparr>"
  by (simp add: calculate_discount_def raw_discount_def scheduled_table_def set_valid_from_def
      save10_def valid_from_def valid_to_def min_subtotal_def)




subsection \<open>Empty orders and negative discounts\<close>






lemma quantize_neg_numeral [simp]: "quantize (- numeral n) = - numeral n"
  using quantize_of_int [of "- numeral n"] by simp

text \<open>
  C7. The failing input: \<^verbatim>\<open>POST /admin/promo/create\<close> stores a promo code of minus ten
  percent, and the example order placed with it gets the discount -250 and the total 2750.
\<close>

theorem negative_promo_gives_negative_discount:
  "create_promo negative_code Map.empty administrator = Inr negative_table
   \<and> create_order default_hours monday_noon 0 (example_db\<lparr>promocodes := negative_table\<rparr>)
        customer (example_request\<lparr>promocode := Some ''NEG''\<rparr>)
      = Inr \<lparr>user_id = Some 7, status = ''NEW'', subtotal = 2500, order_discount = - 250,
             total = 2750, promocode_code = Some ''NEG'', updated_at = 0\<rparr>"
proof
  show "create_promo negative_code Map.empty administrator = Inr negative_table"
    by (simp add: create_promo_def require_admin_def administrator_def negative_code_def
        negative_table_def)
  show "create_order default_hours monday_noon 0 (example_db\<lparr>promocodes := negative_table\<rparr>)
        customer (example_request\<lparr>promocode := Some ''NEG''\<rparr>)
      = Inr \<lparr>user_id = Some 7, status = ''NEW'', subtotal = 2500, order_discount = - 250,
             total = 2750, promocode_code = Some ''NEG'', updated_at = 0\<rparr>"
    using open_monday_noon
    by (simp add: create_order_def example_db_def example_request_def customer_def
        negative_table_def calculate_discount_def raw_discount_def valid_from_def valid_to_def
        min_subtotal_def restrict_map_def)
qed

subsection \<open>The amounts of an order when no stored amount is negative\<close>

lemma round_half_even_ge_floor: "\<lfloor>x\<rfloor> \<le> round_half_even x"
  by (simp add: round_half_even_def Let_def)

lemma quantize_nonneg:
  assumes "0 \<le> x"
  shows "0 \<le> quantize x"
proof -
  from assms have "0 \<le> \<lfloor>x * 100\<rfloor>" by simp
  with round_half_even_ge_floor [of "x * 100"] have "0 \<le> round_half_even (x * 100)"
    by linarith
  then show ?thesis by (simp add: quantize_def)
qed

lemma rounded_line_total_nonneg:
  assumes "priceable m it" and "\<forall>i mi. m i = Some mi \<longrightarrow> 0 \<le> price mi"
  shows "0 \<le> rounded_line_total m it"
proof -
  from assms(1) obtain mi where mi: "m (item_id it) = Some mi" "0 < qty it"
    by (auto simp: priceable_def split: option.splits)
  with assms(2) have "0 \<le> price mi * of_int (qty it)" by simp
  then have "0 \<le> quantize (price mi * of_int (qty it))" by (rule quantize_nonneg)
  with mi show ?thesis by (simp add: rounded_line_total_def)
qed

lemma calculate_discount_at_most_subtotal:
  assumes "calculate_discount db c sub now = Inr res" and "0 \<le> sub"
  shows "(if valid res then discount res else 0) \<le> sub"
  using assms
  by (auto simp: calculate_discount_def split: option.splits if_splits sum.splits)

lemma calculate_discount_nonneg:
  assumes "calculate_discount db c sub now = Inr res" and "0 \<le> sub"
    and "\<forall>k p v. db k = Some p \<and> promo_value p = Some v \<longrightarrow> 0 \<le> v"
  shows "0 \<le> (if valid res then discount res else 0)"
proof (cases "valid res")
  case False
  then show ?thesis by simp
next
  case True
  show ?thesis
  proof (cases c)
    case None
    with assms(1) show ?thesis by (auto simp: calculate_discount_def)
  next
    case (Some k)
    show ?thesis
    proof (cases "k = []")
      case True
      with Some assms(1) show ?thesis by (auto simp: calculate_discount_def)
    next
      case False
      with Some assms(1) \<open>valid res\<close> obtain p d where p: "db k = Some p"
        and d: "raw_discount p sub = Inr d" and res: "discount res = min d sub"
        by (auto simp: calculate_discount_def split: option.splits if_splits sum.splits)
      have "0 \<le> d"
      proof (cases "promo_value p")
        case None
        with d show ?thesis by (auto simp: raw_discount_def split: if_splits)
      next
        case (Some v)
        with p assms(3) have "0 \<le> v" by blast
        with assms(2) have "0 \<le> sub * v / 100" by simp
        then have "0 \<le> quantize (sub * v / 100)" by (rule quantize_nonneg)
        with d Some \<open>0 \<le> v\<close> show ?thesis by (auto simp: raw_discount_def split: if_splits)
      qed
      with res assms(2) \<open>valid res\<close> show ?thesis by simp
    qed
  qed
qed

text \<open>
  With menu prices that are not negative (the menu schemas require a positive price), the
  discount of a created order is at most its subtotal and the total is
  \<open>max 0 (subtotal - discount)\<close> rounded to two decimals; the discount is not negative
  as soon as no stored promo value is.
\<close>

lemma order_amounts:
  assumes "create_order hours ct now db u payload = Inr ord"
    and "\<forall>i mi. menu_items db i = Some mi \<longrightarrow> 0 \<le> price mi"
  shows "0 \<le> subtotal ord"
    and "order_discount ord \<le> subtotal ord"
    and "total ord = quantize (max 0 (subtotal ord - order_discount ord))"
    and "(\<forall>k p v. promocodes db k = Some p \<and> promo_value p = Some v \<longrightarrow> 0 \<le> v)
         \<Longrightarrow> 0 \<le> order_discount ord"
proof -
  from create_order_Inr [OF assms(1)] obtain res where
    lines: "\<forall>it \<in> set (items payload). priceable (menu_items db) it"
    and sub: "subtotal ord = sum_list (map (rounded_line_total (menu_items db)) (items payload))"
    and res: "calculate_discount (promocodes db) (promocode payload) (subtotal ord) now = Inr res"
    and disc: "order_discount ord = (if valid res then discount res else 0)"
    and tot: "total ord = quantize (max 0 (subtotal ord - order_discount ord))"
    by blast
  from lines assms(2) have "\<forall>x \<in> set (map (rounded_line_total (menu_items db)) (items payload)).
      0 \<le> x"
    by (auto intro: rounded_line_total_nonneg)
  then show nonneg: "0 \<le> subtotal ord"
    unfolding sub by (intro sum_list_nonneg) blast
  from calculate_discount_at_most_subtotal [OF res nonneg] disc
  show "order_discount ord \<le> subtotal ord" by simp
  from tot show "total ord = quantize (max 0 (subtotal ord - order_discount ord))" .
  assume "\<forall>k p v. promocodes db k = Some p \<and> promo_value p = Some v \<longrightarrow> 0 \<le> v"
  from calculate_discount_nonneg [OF res nonneg this] disc
  show "0 \<le> order_discount ord" by simp
qed

subsection \<open>The status endpoints\<close>

lemma transition_Inr:
  "transition c r = Inr s \<longleftrightarrow> s = r \<and> (c, r) \<in> spec_edges"
  unfolding transition_eval spec_edges_iff by auto

lemma courier_update_Inr:
  assumes "courier_update_order_status u oid requested now db = Inr db'"
  shows "\<exists>ord. db oid = Some ord \<and> (status ord, requested) \<in> spec_edges
           \<and> db' = db(oid \<mapsto> ord\<lparr>status := requested, updated_at := now\<rparr>)"
proof -
  from assms obtain r where r: "validate_status requested = Inr r"
    by (cases "validate_status requested")
       (auto simp: courier_update_order_status_def split: sum.splits)
  then have [simp]: "r = requested" by (auto simp: validate_status_def split: if_splits)
  from assms r obtain ord where ord: "db oid = Some ord"
    by (cases "db oid") (auto simp: courier_update_order_status_def split: sum.splits)
  from assms r ord obtain s where s: "transition (status ord) requested = Inr s"
    and db': "db' = db(oid \<mapsto> ord\<lparr>status := s, updated_at := now\<rparr>)"
    by (cases "transition (status ord) requested")
       (auto simp: courier_update_order_status_def split: sum.splits)
  from s have "s = requested" "(status ord, requested) \<in> spec_edges"
    by (simp_all add: transition_Inr)
  with ord db' show ?thesis by simp
qed

lemma courier_update_on_edge:
  assumes "role u \<in> {''admin'', ''manager'', ''courier''}" and "db oid = Some ord"
    and "(status ord, requested) \<in> spec_edges"
  shows "courier_update_order_status u oid requested now db =
           Inr (db(oid \<mapsto> ord\<lparr>status := requested, updated_at := now\<rparr>))"
proof -
  from assms(3) have t: "transition (status ord) requested = Inr requested"
    by (simp add: transition_Inr)
  from assms(3) have v: "validate_status requested = Inr requested"
    unfolding spec_edges_iff by (auto simp: validate_status_def)
  from assms(1) have c: "require_courier u = Inr u"
    by (auto simp: require_courier_def)
  show ?thesis
    by (simp add: courier_update_order_status_def c v t assms(2))
qed

lemma cancel_order_Inr:
  assumes "cancel_order u oid now db = Inr db'"
  shows "\<exists>ord. db oid = Some ord \<and> status ord \<in> {''NEW'', ''PENDING'', ''CONFIRMED''}
           \<and> db' = db(oid \<mapsto> ord\<lparr>status := ''CANCELLED'', updated_at := now\<rparr>)"
  using assms
  by (cases "db oid")
     (auto simp: cancel_order_def cancellable_statuses_def split: if_splits)

text \<open>
  C1 (as amended). The courier status update changes a status only along the six edges,
  and accepts every change along them; the user cancel changes a status only to CANCELLED
  and only from NEW, PENDING or CONFIRMED, hence on the five states only along
  NEW \<rightarrow> CANCELLED; the admin status update stores any of the five statuses
  whatever the current one is, and refuses only a status outside the five.
\<close>

theorem status_changes_by_endpoint:
  "(courier_update_order_status u oid requested now db = Inr db' \<longrightarrow>
      (\<exists>ord. db oid = Some ord \<and> (status ord, requested) \<in> spec_edges
         \<and> db' = db(oid \<mapsto> ord\<lparr>status := requested, updated_at := now\<rparr>)))
   \<and> (role u \<in> {''admin'', ''manager'', ''courier''} \<and> db oid = Some ord
        \<and> (status ord, requested) \<in> spec_edges \<longrightarrow>
        courier_update_order_status u oid requested now db =
          Inr (db(oid \<mapsto> ord\<lparr>status := requested, updated_at := now\<rparr>)))
   \<and> (cancel_order u oid now db = Inr db' \<longrightarrow>
        (\<exists>ord. db oid = Some ord \<and> status ord \<in> {''NEW'', ''PENDING'', ''CONFIRMED''}
           \<and> (status ord \<in> set states \<longrightarrow> (status ord, ''CANCELLED'') \<in> spec_edges)
           \<and> db' = db(oid \<mapsto> ord\<lparr>status := ''CANCELLED'', updated_at := now\<rparr>)))
   \<and> (role u = ''admin'' \<and> requested \<in> ALLOWED_STATUSES \<and> db oid = Some ord \<longrightarrow>
        admin_update_order_status u oid requested db =
          Inr (db(oid \<mapsto> ord\<lparr>status := requested\<rparr>)))
   \<and> (requested \<notin> ALLOWED_STATUSES \<longrightarrow> isl (admin_update_order_status u oid requested db))"
proof (intro conjI impI)
  assume "courier_update_order_status u oid requested now db = Inr db'"
  then show "\<exists>ord. db oid = Some ord \<and> (status ord, requested) \<in> spec_edges
      \<and> db' = db(oid \<mapsto> ord\<lparr>status := requested, updated_at := now\<rparr>)"
    by (rule courier_update_Inr)
next
  assume "role u \<in> {''admin'', ''manager'', ''courier''} \<and> db oid = Some ord
      \<and> (status ord, requested) \<in> spec_edges"
  then show "courier_update_order_status u oid requested now db =
      Inr (db(oid \<mapsto> ord\<lparr>status := requested, updated_at := now\<rparr>))"
    using courier_update_on_edge [of u db oid ord requested now] by blast
next
  assume "cancel_order u oid now db = Inr db'"
  then obtain ord where ord: "db oid = Some ord"
      "status ord \<in> {''NEW'', ''PENDING'', ''CONFIRMED''}"
      "db' = db(oid \<mapsto> ord\<lparr>status := ''CANCELLED'', updated_at := now\<rparr>)"
    using cancel_order_Inr by blast
  from ord(2) have "status ord \<in> set states \<longrightarrow> (status ord, ''CANCELLED'') \<in> spec_edges"
    unfolding spec_edges_iff by (auto simp: states_def)
  with ord show "\<exists>ord. db oid = Some ord \<and> status ord \<in> {''NEW'', ''PENDING'', ''CONFIRMED''}
      \<and> (status ord \<in> set states \<longrightarrow> (status ord, ''CANCELLED'') \<in> spec_edges)
      \<and> db' = db(oid \<mapsto> ord\<lparr>status := ''CANCELLED'', updated_at := now\<rparr>)"
    by blast
next
  assume "role u = ''admin'' \<and> requested \<in> ALLOWED_STATUSES \<and> db oid = Some ord"
  then show "admin_update_order_status u oid requested db =
      Inr (db(oid \<mapsto> ord\<lparr>status := requested\<rparr>))"
    by (simp add: admin_update_order_status_def require_admin_def)
next
  assume "requested \<notin> ALLOWED_STATUSES"
  then show "isl (admin_update_order_status u oid requested db)"
    by (simp add: admin_update_order_status_def require_admin_def)
qed

lemma order_book_lookup:
  "order_book 1 = Some delivered_order"
  "order_book 2 = Some (delivered_order\<lparr>status := ''NEW''\<rparr>)"
  by (simp_all add: order_book_def)

lemma delivered_order_fields:
  "status delivered_order = ''DELIVERED''" "user_id delivered_order = Some 7"
  by (simp_all add: delivered_order_def)

theorem status_changes_by_endpoint_witness:
  "role courier \<in> {''admin'', ''manager'', ''courier''}
   \<and> order_book 2 = Some (delivered_order\<lparr>status := ''NEW''\<rparr>)
   \<and> (status (delivered_order\<lparr>status := ''NEW''\<rparr>), ''COOKING'') \<in> spec_edges
   \<and> courier_update_order_status courier 2 ''COOKING'' 9 order_book =
        Inr (order_book(2 \<mapsto> delivered_order\<lparr>status := ''COOKING'', updated_at := 9\<rparr>))
   \<and> cancel_order customer 2 9 order_book =
        Inr (order_book(2 \<mapsto> delivered_order\<lparr>status := ''CANCELLED'', updated_at := 9\<rparr>))
   \<and> role administrator = ''admin'' \<and> ''NEW'' \<in> ALLOWED_STATUSES
   \<and> order_book 1 = Some delivered_order
   \<and> admin_update_order_status administrator 1 ''NEW'' order_book =
        Inr (order_book(1 \<mapsto> delivered_order\<lparr>status := ''NEW''\<rparr>))
   \<and> ''PAID'' \<notin> ALLOWED_STATUSES
   \<and> isl (admin_update_order_status administrator 1 ''PAID'' order_book)"
proof -
  have h1: "role courier \<in> {''admin'', ''manager'', ''courier''}"
    by (simp add: courier_def)
  have h2: "(status (delivered_order\<lparr>status := ''NEW''\<rparr>), ''COOKING'') \<in> spec_edges"
    by (simp add: spec_edges_def)
  have h3: "role administrator = ''admin''"
    by (simp add: administrator_def)
  have h4: "''NEW'' \<in> ALLOWED_STATUSES"
    by (simp add: ALLOWED_STATUSES_def)
  have h5: "''PAID'' \<notin> ALLOWED_STATUSES"
    by (simp add: ALLOWED_STATUSES_def)
  have c: "cancel_order customer 2 9 order_book =
      Inr (order_book(2 \<mapsto> delivered_order\<lparr>status := ''CANCELLED'', updated_at := 9\<rparr>))"
    by (simp add: cancel_order_def order_book_lookup delivered_order_fields customer_def
        cancellable_statuses_def)
  have courier_step: "courier_update_order_status courier 2 ''COOKING'' 9 order_book =
      Inr (order_book(2 \<mapsto> delivered_order\<lparr>status := ''NEW''\<rparr>
             \<lparr>status := ''COOKING'', updated_at := 9\<rparr>))"
  proof (rule mp [OF status_changes_by_endpoint
         [where u = courier and oid = 2 and requested = "''COOKING''" and now = 9
            and db = order_book and ord = "delivered_order\<lparr>status := ''NEW''\<rparr>",
          THEN conjunct2, THEN conjunct1]])
    show "role courier \<in> {''admin'', ''manager'', ''courier''}
        \<and> order_book 2 = Some (delivered_order\<lparr>status := ''NEW''\<rparr>)
        \<and> (status (delivered_order\<lparr>status := ''NEW''\<rparr>), ''COOKING'') \<in> spec_edges"
      using h1 order_book_lookup(2) h2 by (intro conjI)
  qed
  then have courier_step': "courier_update_order_status courier 2 ''COOKING'' 9 order_book =
      Inr (order_book(2 \<mapsto> delivered_order\<lparr>status := ''COOKING'', updated_at := 9\<rparr>))"
    by simp
  have admin_step: "admin_update_order_status administrator 1 ''NEW'' order_book =
      Inr (order_book(1 \<mapsto> delivered_order\<lparr>status := ''NEW''\<rparr>))"
  proof (rule mp [OF status_changes_by_endpoint
         [where u = administrator and oid = 1 and requested = "''NEW''"
            and db = order_book and ord = delivered_order,
          THEN conjunct2, THEN conjunct2, THEN conjunct2, THEN conjunct1]])
    show "role administrator = ''admin'' \<and> ''NEW'' \<in> ALLOWED_STATUSES
        \<and> order_book 1 = Some delivered_order"
      using h3 h4 order_book_lookup(1) by (intro conjI)
  qed
  have admin_refuses: "isl (admin_update_order_status administrator 1 ''PAID'' order_book)"
    by (rule mp [OF status_changes_by_endpoint
         [where u = administrator and oid = 1 and requested = "''PAID''" and db = order_book,
          THEN conjunct2, THEN conjunct2, THEN conjunct2, THEN conjunct2]]) (rule h5)
  show ?thesis
    using h1 order_book_lookup(2) h2 courier_step' c h3 h4 order_book_lookup(1) admin_step h5
      admin_refuses
    by (intro conjI)
qed

theorem admin_status_counterexample:
  "order_book 1 = Some delivered_order \<and> status delivered_order = ''DELIVERED''
   \<and> (''DELIVERED'', ''NEW'') \<notin> spec_edges
   \<and> admin_update_order_status administrator 1 ''NEW'' order_book =
        Inr (order_book(1 \<mapsto> delivered_order\<lparr>status := ''NEW''\<rparr>))"
proof -
  have off: "(''DELIVERED'', ''NEW'') \<notin> spec_edges"
    by (simp add: spec_edges_def)
  have stored: "admin_update_order_status administrator 1 ''NEW'' order_book =
      Inr (order_book(1 \<mapsto> delivered_order\<lparr>status := ''NEW''\<rparr>))"
    by (simp add: admin_update_order_status_def require_admin_def administrator_def
        ALLOWED_STATUSES_def order_book_lookup)
  show ?thesis
    using order_book_lookup(1) delivered_order_fields(1) off stored by (intro conjI)
qed

subsection \<open>Business hours\<close>

lemma next_open_day_find:
  "next_open_day hours d days =
     (case find (\<lambda>i. opening_instant hours (d + int i) \<noteq> None) days of
        None \<Rightarrow> None
      | Some i \<Rightarrow> opening_instant hours (d + int i))"
  by (induction days)
     (auto simp: opening_instant_def Let_def split: option.splits)

lemma get_next_open_time_today:
  assumes "hours (weekday lt) = Some bh" and "\<not> is_closed bh"
    and "open_time bh = Some opens"
  shows "get_next_open_time hours lt =
           (if time_of_day lt < opens
            then Some (combine (date_ordinal lt) opens business_timezone)
            else next_open_day hours (date_ordinal lt) [1..<8])"
  using assms by (simp add: get_next_open_time_def Let_def)

lemma is_open_at_time_configured:
  assumes "hours (weekday (to_business_timezone t)) = Some bh" and "\<not> is_closed bh"
    and "open_time bh = Some opens" and "close_time bh = Some closes"
  shows "is_open_at_time hours t =
           (if opens \<le> time_of_day (to_business_timezone t)
               \<and> time_of_day (to_business_timezone t) \<le> closes
            then \<lparr>is_open = True, hours_reason = None, next_open_time = None\<rparr>
            else \<lparr>is_open = False,
                  hours_reason = Some (if time_of_day (to_business_timezone t) < opens
                                       then ''before_opening'' else ''after_closing''),
                  next_open_time = get_next_open_time hours (to_business_timezone t)\<rparr>)"
  using assms by (simp add: is_open_at_time_def Let_def)

text \<open>
  C6 (as amended). For a weekday whose entry is not closed and has both times, the check
  reports open exactly when the opening time \<open>\<le>\<close> the time of day \<open>\<le>\<close> the closing time.
  Otherwise it reports closed, with reason \<open>before_opening\<close> when the time of day is
  before the opening time and \<open>after_closing\<close> in every other case (then the time of day
  is after the closing time; where the opening time is not after the closing time, these
  are exactly the times after closing). The next opening is today's opening instant when
  the time of day is before today's opening, else the opening instant of the first of the
  next seven days that has one, if any.
\<close>

theorem open_exactly_within_hours:
  assumes "hours (weekday (to_business_timezone t)) = Some bh" and "\<not> is_closed bh"
    and "open_time bh = Some opens" and "close_time bh = Some closes"
    and "lt = to_business_timezone t" and "r = is_open_at_time hours t"
  shows "(is_open r \<longleftrightarrow> opens \<le> time_of_day lt \<and> time_of_day lt \<le> closes)
       \<and> (is_open r \<longrightarrow> hours_reason r = None \<and> next_open_time r = None)
       \<and> (\<not> is_open r \<and> time_of_day lt < opens \<longrightarrow>
            hours_reason r = Some ''before_opening''
            \<and> next_open_time r = Some (combine (date_ordinal lt) opens business_timezone))
       \<and> (\<not> is_open r \<and> \<not> time_of_day lt < opens \<longrightarrow>
            hours_reason r = Some ''after_closing'' \<and> closes < time_of_day lt
            \<and> next_open_time r =
                (case find (\<lambda>i. opening_instant hours (date_ordinal lt + int i) \<noteq> None)
                        [1..<8] of
                   None \<Rightarrow> None
                 | Some i \<Rightarrow> opening_instant hours (date_ordinal lt + int i)))
       \<and> (opens \<le> closes \<and> closes < time_of_day lt \<longrightarrow>
            \<not> is_open r \<and> hours_reason r = Some ''after_closing'')"
proof -
  have r: "r = (if opens \<le> time_of_day lt \<and> time_of_day lt \<le> closes
            then \<lparr>is_open = True, hours_reason = None, next_open_time = None\<rparr>
            else \<lparr>is_open = False,
                  hours_reason = Some (if time_of_day lt < opens
                                       then ''before_opening'' else ''after_closing''),
                  next_open_time = get_next_open_time hours lt\<rparr>)"
    unfolding assms(5,6) using assms(1-4) by (rule is_open_at_time_configured)
  have nxt: "get_next_open_time hours lt =
           (if time_of_day lt < opens
            then Some (combine (date_ordinal lt) opens business_timezone)
            else next_open_day hours (date_ordinal lt) [1..<8])"
    using assms(1-3) unfolding assms(5) by (rule get_next_open_time_today)
  have c1: "is_open r \<longleftrightarrow> opens \<le> time_of_day lt \<and> time_of_day lt \<le> closes"
    by (simp add: r)
  have c2: "is_open r \<longrightarrow> hours_reason r = None \<and> next_open_time r = None"
    by (simp add: r)
  have c3: "\<not> is_open r \<and> time_of_day lt < opens \<longrightarrow>
      hours_reason r = Some ''before_opening''
      \<and> next_open_time r = Some (combine (date_ordinal lt) opens business_timezone)"
    by (simp add: r nxt)
  have c4: "\<not> is_open r \<and> \<not> time_of_day lt < opens \<longrightarrow>
      hours_reason r = Some ''after_closing'' \<and> closes < time_of_day lt
      \<and> next_open_time r =
          (case find (\<lambda>i. opening_instant hours (date_ordinal lt + int i) \<noteq> None) [1..<8] of
             None \<Rightarrow> None
           | Some i \<Rightarrow> opening_instant hours (date_ordinal lt + int i))"
    unfolding next_open_day_find [symmetric] by (auto simp: r nxt)
  have c5: "opens \<le> closes \<and> closes < time_of_day lt \<longrightarrow>
      \<not> is_open r \<and> hours_reason r = Some ''after_closing''"
    by (auto simp: r)
  from c1 c2 c3 c4 c5 show ?thesis by (intro conjI)
qed

lemma business_time_unchanged:
  "tzinfo t = Some business_timezone \<Longrightarrow> to_business_timezone t = t"
  by (simp add: to_business_timezone_def)

lemma sample_instants:
  "to_business_timezone monday_0859 = monday_0859"
  "to_business_timezone monday_2230 = monday_2230"
  "to_business_timezone monday_2300 = monday_2300"
  "to_business_timezone monday_noon = monday_noon"
  "weekday monday_0859 = 0" "weekday monday_2230 = 0" "weekday monday_2300 = 0"
  "weekday monday_noon = 0"
  "date_ordinal monday_0859 = 1" "date_ordinal monday_2230 = 1" "date_ordinal monday_2300 = 1"
  "time_of_day monday_0859 = time 8 59" "time_of_day monday_2230 = time 22 30"
  "time_of_day monday_2300 = time 23 0" "time_of_day monday_noon = time 12 0"
  by (simp_all add: business_time_unchanged monday_0859_def monday_2230_def monday_2300_def
      monday_noon_def weekday_def weekday_of_def)

lemma default_hours_lookup:
  "default_hours 0 = Some weekday_hours"
  "default_hours 1 = Some (weekday_hours\<lparr>day := 1\<rparr>)"
  "default_hours (Suc 0) = Some (weekday_hours\<lparr>day := 1\<rparr>)"
  by (simp_all add: default_hours_def weekday_hours_def)

lemma weekday_hours_fields:
  "\<not> is_closed weekday_hours" "open_time weekday_hours = Some (time 9 0)"
  "close_time weekday_hours = Some (time 22 0)"
  by (simp_all add: weekday_hours_def)

lemma first_day: "[1..<8] = 1 # [2..<8]"
  by (simp add: upt_conv_Cons)

lemma tuesday_opening:
  "opening_instant default_hours (1 + int 1) = Some (combine 2 (time 9 0) business_timezone)"
  "find (\<lambda>i. opening_instant default_hours (1 + int i) \<noteq> None) [1..<8] = Some 1"
proof -
  show tuesday:
    "opening_instant default_hours (1 + int 1) = Some (combine 2 (time 9 0) business_timezone)"
    by (simp add: opening_instant_def weekday_of_def default_hours_lookup weekday_hours_fields)
  then show "find (\<lambda>i. opening_instant default_hours (1 + int i) \<noteq> None) [1..<8] = Some 1"
    by (simp only: first_day find.simps) simp
qed

theorem open_exactly_within_hours_witness:
  "default_hours (weekday (to_business_timezone monday_0859)) = Some weekday_hours
   \<and> default_hours (weekday (to_business_timezone monday_2300)) = Some weekday_hours
   \<and> default_hours (weekday (to_business_timezone monday_noon)) = Some weekday_hours
   \<and> \<not> is_closed weekday_hours
   \<and> open_time weekday_hours = Some (time 9 0) \<and> close_time weekday_hours = Some (time 22 0)
   \<and> is_open (is_open_at_time default_hours monday_noon)
   \<and> \<not> is_open (is_open_at_time default_hours monday_0859)
   \<and> hours_reason (is_open_at_time default_hours monday_0859) = Some ''before_opening''
   \<and> next_open_time (is_open_at_time default_hours monday_0859)
        = Some (combine 1 (time 9 0) business_timezone)
   \<and> \<not> is_open (is_open_at_time default_hours monday_2300)
   \<and> hours_reason (is_open_at_time default_hours monday_2300) = Some ''after_closing''
   \<and> next_open_time (is_open_at_time default_hours monday_2300)
        = Some (combine 2 (time 9 0) business_timezone)"
proof -
  have e: "default_hours (weekday (to_business_timezone monday_0859)) = Some weekday_hours"
    "default_hours (weekday (to_business_timezone monday_2300)) = Some weekday_hours"
    "default_hours (weekday (to_business_timezone monday_noon)) = Some weekday_hours"
    by (simp_all add: sample_instants default_hours_lookup)
  note early = open_exactly_within_hours
    [where hours = default_hours and t = monday_0859 and bh = weekday_hours
       and opens = "time 9 0" and closes = "time 22 0",
     OF e(1) weekday_hours_fields refl refl]
  note late = open_exactly_within_hours
    [where hours = default_hours and t = monday_2300 and bh = weekday_hours
       and opens = "time 9 0" and closes = "time 22 0",
     OF e(2) weekday_hours_fields refl refl]
  note noon = open_exactly_within_hours
    [where hours = default_hours and t = monday_noon and bh = weekday_hours
       and opens = "time 9 0" and closes = "time 22 0",
     OF e(3) weekday_hours_fields refl refl]
  have n: "is_open (is_open_at_time default_hours monday_noon)"
    unfolding noon [THEN conjunct1] by (simp add: sample_instants time_def)
  have a1: "\<not> is_open (is_open_at_time default_hours monday_0859)"
    unfolding early [THEN conjunct1] by (simp add: sample_instants time_def)
  have a2: "time_of_day (to_business_timezone monday_0859) < time 9 0"
    by (simp add: sample_instants time_def)
  have a3: "hours_reason (is_open_at_time default_hours monday_0859) = Some ''before_opening''
      \<and> next_open_time (is_open_at_time default_hours monday_0859)
           = Some (combine (date_ordinal (to_business_timezone monday_0859)) (time 9 0)
                     business_timezone)"
    by (rule mp [OF early [THEN conjunct2, THEN conjunct2, THEN conjunct1]])
       (intro conjI a1 a2)
  have b1: "\<not> is_open (is_open_at_time default_hours monday_2300)"
    unfolding late [THEN conjunct1] by (simp add: sample_instants time_def)
  have b2: "\<not> time_of_day (to_business_timezone monday_2300) < time 9 0"
    by (simp add: sample_instants time_def)
  have b3: "hours_reason (is_open_at_time default_hours monday_2300) = Some ''after_closing''
      \<and> time 22 0 < time_of_day (to_business_timezone monday_2300)
      \<and> next_open_time (is_open_at_time default_hours monday_2300)
           = (case find (\<lambda>i. opening_instant default_hours
                                (date_ordinal (to_business_timezone monday_2300) + int i)
                              \<noteq> None) [1..<8] of
                None \<Rightarrow> None
              | Some i \<Rightarrow> opening_instant default_hours
                            (date_ordinal (to_business_timezone monday_2300) + int i))"
    by (rule mp [OF late [THEN conjunct2, THEN conjunct2, THEN conjunct2, THEN conjunct1]])
       (intro conjI b1 b2)
  have a4: "next_open_time (is_open_at_time default_hours monday_0859)
      = Some (combine 1 (time 9 0) business_timezone)"
    using a3 [THEN conjunct2] by (simp only: sample_instants)
  have b4: "next_open_time (is_open_at_time default_hours monday_2300)
      = Some (combine 2 (time 9 0) business_timezone)"
    using b3 [THEN conjunct2, THEN conjunct2]
    by (simp only: sample_instants tuesday_opening option.case)
  show ?thesis
    using e weekday_hours_fields n a1 a3 [THEN conjunct1] a4 b1 b3 [THEN conjunct1] b4
    by (intro conjI)
qed

lemma late_monday_lookup: "late_monday 0 = Some late_hours"
  by (simp add: late_monday_def late_hours_def)

theorem reason_between_closing_and_opening_counterexample:
  "update_day_hours default_hours administrator ''monday'' late_opening = Inr late_monday
   \<and> late_monday (weekday (to_business_timezone monday_2230)) = Some late_hours
   \<and> \<not> is_closed late_hours
   \<and> open_time late_hours = Some (time 23 0) \<and> close_time late_hours = Some (time 22 0)
   \<and> time 22 0 < time_of_day (to_business_timezone monday_2230)
   \<and> is_open_at_time late_monday monday_2230 =
        \<lparr>is_open = False, hours_reason = Some ''before_opening'',
         next_open_time = Some (combine 1 (time 23 0) business_timezone)\<rparr>"
proof -
  have u: "update_day_hours default_hours administrator ''monday'' late_opening = Inr late_monday"
    by (simp add: update_day_hours_def require_admin_def administrator_def lower_def
        day_mapping_def late_opening_def default_hours_lookup weekday_hours_fields
        update_hours_for_day_def late_monday_def)
  have l: "late_monday (weekday (to_business_timezone monday_2230)) = Some late_hours"
    by (simp add: sample_instants late_monday_lookup)
  have f: "\<not> is_closed late_hours" "open_time late_hours = Some (time 23 0)"
    "close_time late_hours = Some (time 22 0)"
    by (simp_all add: late_hours_def)
  have t: "time 22 0 < time_of_day (to_business_timezone monday_2230)"
    by (simp add: sample_instants time_def)
  have r: "is_open_at_time late_monday monday_2230 =
        \<lparr>is_open = False, hours_reason = Some ''before_opening'',
         next_open_time = Some (combine 1 (time 23 0) business_timezone)\<rparr>"
    by (simp add: is_open_at_time_def get_next_open_time_def sample_instants
        late_monday_lookup f time_def)
  show ?thesis using u l f t r by (intro conjI)
qed

end
